theory Spec2Isabelle
  imports Complex_Main "HOL-Library.Word" "HOL-Library.Signed_Division"
begin

unbundle bit_operations_syntax

section \<open>JavaScript numbers\<close>

text \<open>
  A JavaScript \<^verbatim>\<open>number\<close> is modelled as a real number or one of the three special
  values of IEEE arithmetic. Arithmetic on finite values is exact (results are not rounded
  to binary64 and never overflow), and there is a single zero, which behaves as \<open>+0\<close>:
  dividing a positive number by it gives \<open>PInf\<close>. Everything else follows ECMAScript:
  \<open>NaN\<close> is contagious and compares false with everything, \<open>Inf - Inf\<close>, \<open>Inf * 0\<close>,
  \<open>0 / 0\<close> and \<open>Inf / Inf\<close> are \<open>NaN\<close>. Where the code reaches an infinity or \<open>NaN\<close> only
  by overflow of finite operands, the model has a finite value instead; the statement about
  the legacy clamp below is therefore made for an arbitrary unclamped value.
\<close>

datatype jsnum = NaN | PInf | NInf | Fin real

fun jneg :: "jsnum \<Rightarrow> jsnum" where
  "jneg NaN = NaN"
| "jneg PInf = NInf"
| "jneg NInf = PInf"
| "jneg (Fin a) = Fin (- a)"

fun jadd :: "jsnum \<Rightarrow> jsnum \<Rightarrow> jsnum" where
  "jadd NaN _ = NaN"
| "jadd _ NaN = NaN"
| "jadd (Fin a) (Fin b) = Fin (a + b)"
| "jadd PInf NInf = NaN"
| "jadd NInf PInf = NaN"
| "jadd PInf _ = PInf"
| "jadd _ PInf = PInf"
| "jadd NInf _ = NInf"
| "jadd _ NInf = NInf"

definition jsub :: "jsnum \<Rightarrow> jsnum \<Rightarrow> jsnum" where
  "jsub a b = jadd a (jneg b)"

fun jmul :: "jsnum \<Rightarrow> jsnum \<Rightarrow> jsnum" where
  "jmul NaN _ = NaN"
| "jmul _ NaN = NaN"
| "jmul (Fin a) (Fin b) = Fin (a * b)"
| "jmul PInf (Fin b) = (if b = 0 then NaN else if 0 < b then PInf else NInf)"
| "jmul NInf (Fin b) = (if b = 0 then NaN else if 0 < b then NInf else PInf)"
| "jmul (Fin a) PInf = (if a = 0 then NaN else if 0 < a then PInf else NInf)"
| "jmul (Fin a) NInf = (if a = 0 then NaN else if 0 < a then NInf else PInf)"
| "jmul PInf PInf = PInf"
| "jmul NInf NInf = PInf"
| "jmul PInf NInf = NInf"
| "jmul NInf PInf = NInf"

fun jdiv :: "jsnum \<Rightarrow> jsnum \<Rightarrow> jsnum" where
  "jdiv NaN _ = NaN"
| "jdiv _ NaN = NaN"
| "jdiv (Fin a) (Fin b) =
     (if b = 0 then (if a = 0 then NaN else if 0 < a then PInf else NInf)
      else Fin (a / b))"
| "jdiv (Fin a) PInf = Fin 0"
| "jdiv (Fin a) NInf = Fin 0"
| "jdiv PInf (Fin b) = (if 0 \<le> b then PInf else NInf)"
| "jdiv NInf (Fin b) = (if 0 \<le> b then NInf else PInf)"
| "jdiv PInf PInf = NaN"
| "jdiv PInf NInf = NaN"
| "jdiv NInf PInf = NaN"
| "jdiv NInf NInf = NaN"

text \<open>The comparison operators \<^verbatim>\<open><\<close> and \<^verbatim>\<open><=\<close>; \<^verbatim>\<open>a > b\<close> is \<open>jlt b a\<close>
  and \<^verbatim>\<open>a >= b\<close> is \<open>jle b a\<close>.\<close>

fun jlt :: "jsnum \<Rightarrow> jsnum \<Rightarrow> bool" where
  "jlt NaN _ = False"
| "jlt _ NaN = False"
| "jlt (Fin a) (Fin b) = (a < b)"
| "jlt _ NInf = False"
| "jlt PInf _ = False"
| "jlt NInf _ = True"
| "jlt _ PInf = True"

fun jle :: "jsnum \<Rightarrow> jsnum \<Rightarrow> bool" where
  "jle NaN _ = False"
| "jle _ NaN = False"
| "jle (Fin a) (Fin b) = (a \<le> b)"
| "jle NInf _ = True"
| "jle _ PInf = True"
| "jle PInf _ = False"
| "jle _ NInf = False"

text \<open>Strict equality \<^verbatim>\<open>===\<close> on numbers: \<open>NaN\<close> is not equal to itself.\<close>

definition jeq :: "jsnum \<Rightarrow> jsnum \<Rightarrow> bool" where
  "jeq a b = (a \<noteq> NaN \<and> a = b)"

text \<open>\<^verbatim>\<open>Math.max\<close> and \<^verbatim>\<open>Math.min\<close> of two arguments.\<close>

definition Math_max :: "jsnum \<Rightarrow> jsnum \<Rightarrow> jsnum" where
  "Math_max a b = (if a = NaN \<or> b = NaN then NaN else if jlt a b then b else a)"

definition Math_min :: "jsnum \<Rightarrow> jsnum \<Rightarrow> jsnum" where
  "Math_min a b = (if a = NaN \<or> b = NaN then NaN else if jlt b a then b else a)"

fun Math_floor :: "jsnum \<Rightarrow> jsnum" where
  "Math_floor (Fin a) = Fin (of_int \<lfloor>a\<rfloor>)"
| "Math_floor x = x"

text \<open>Truthiness of a number: every number but \<open>0\<close> and \<open>NaN\<close>.\<close>

definition truthy :: "jsnum \<Rightarrow> bool" where
  "truthy x = (x \<noteq> NaN \<and> x \<noteq> Fin 0)"

fun Number_isInteger :: "jsnum \<Rightarrow> bool" where
  "Number_isInteger (Fin a) = (a = of_int \<lfloor>a\<rfloor>)"
| "Number_isInteger _ = False"

text \<open>Rounding towards zero, as in the abstract operation \<^verbatim>\<open>ToIntegerOrInfinity\<close>.\<close>

definition ToInteger :: "real \<Rightarrow> int" where
  "ToInteger a = (if a < 0 then - \<lfloor>- a\<rfloor> else \<lfloor>a\<rfloor>)"

text \<open>The remainder operator \<^verbatim>\<open>%\<close>: the result has the sign of the dividend.\<close>

fun jmod :: "jsnum \<Rightarrow> jsnum \<Rightarrow> jsnum" where
  "jmod (Fin a) (Fin b) = (if b = 0 then NaN else Fin (a - b * of_int (ToInteger (a / b))))"
| "jmod (Fin a) PInf = Fin a"
| "jmod (Fin a) NInf = Fin a"
| "jmod _ _ = NaN"

text \<open>
  \<^verbatim>\<open>ToUint32\<close>, applied by the bitwise operators to their operands: the integer part
  modulo \<open>2 ^ 32\<close>, and \<open>0\<close> for \<open>NaN\<close> and the infinities. \<^verbatim>\<open>ToInt32\<close> gives the same
  bit pattern; the result of \<^verbatim>\<open>&\<close> is read back as a signed value (\<open>sint\<close>) and the
  result of \<^verbatim>\<open>>>>\<close> as an unsigned one (\<open>uint\<close>).
\<close>

fun ToUint32 :: "jsnum \<Rightarrow> 32 word" where
  "ToUint32 (Fin a) = word_of_int (ToInteger a)"
| "ToUint32 _ = 0"

section \<open>Compact targets\<close>

datatype error = InvalidBits | RangeError

text \<open>
  \<^verbatim>\<open>compactToTarget\<close>: the exponent is bits 24 to 31, the mantissa bits 0 to 22, bit 23 is
  the sign. The result is a \<^verbatim>\<open>bigint\<close>, modelled as \<open>int\<close>; \<^verbatim>\<open>>>\<close> and \<^verbatim>\<open><<\<close> on a
  non-negative \<^verbatim>\<open>bigint\<close> are \<open>drop_bit\<close> and \<open>push_bit\<close>.
\<close>

definition compactToTarget :: "jsnum \<Rightarrow> error + int" where
  "compactToTarget bits =
     (if \<not> Number_isInteger bits \<or> jle bits (Fin 0) then Inl InvalidBits
      else
        let exp = sint (word_of_int (uint (drop_bit 24 (ToUint32 bits))) AND (0xff :: 32 word));
            mant = sint (ToUint32 bits AND 0x007fffff)
        in if sint (ToUint32 bits AND 0x00800000) \<noteq> 0 \<or> mant = 0 then Inl InvalidBits
           else if exp \<le> 3 then Inr (drop_bit (nat (8 * (3 - exp))) mant)
           else Inr (push_bit (nat (8 * (exp - 3))) mant))"

text \<open>\<^verbatim>\<open>Number(n)\<close> of a \<^verbatim>\<open>bigint\<close> (exact, see above).\<close>

definition Number :: "int \<Rightarrow> jsnum" where
  "Number n = Fin (of_int n)"

text \<open>
  \<^verbatim>\<open>pctChangeFromBits\<close>. Division of \<^verbatim>\<open>bigint\<close>s truncates towards zero (\<open>sdiv\<close>) and
  throws a \<^verbatim>\<open>RangeError\<close> when the divisor is \<open>0n\<close>.
\<close>

definition pctChangeFromBits :: "jsnum \<Rightarrow> jsnum \<Rightarrow> error + jsnum" where
  "pctChangeFromBits oldBits newBits =
     (case compactToTarget oldBits of
        Inl e \<Rightarrow> Inl e
      | Inr oldT \<Rightarrow>
         (case compactToTarget newBits of
            Inl e \<Rightarrow> Inl e
          | Inr newT \<Rightarrow>
             if newT = 0 then Inl RangeError
             else
               let SCALE = 1000000;
                   ratioFp = (oldT * SCALE) sdiv newT;
                   ratio = jdiv (Number ratioFp) (Number SCALE)
               in Inr (jmul (jsub ratio (Fin 1)) (Fin 100))))"

section \<open>Activation height\<close>

text \<open>
  Strings are lists of 8-bit characters; \<^verbatim>\<open>toLowerCase\<close> maps the letters \<open>A\<close> to \<open>Z\<close> to
  \<open>a\<close> to \<open>z\<close>. The expression \<^verbatim>\<open>(network || '')\<close> is \<open>network\<close> itself for every
  string, since the only falsy string is the empty one.
\<close>

definition toLowerCase :: "string \<Rightarrow> string" where
  "toLowerCase s =
     map (\<lambda>c. if 65 \<le> (of_char c :: nat) \<and> (of_char c :: nat) \<le> 90
              then char_of ((of_char c :: nat) + 32) else c) s"

definition getActivationHeight :: "string \<Rightarrow> jsnum" where
  "getActivationHeight network =
     (let n = toLowerCase network
      in if n = ''mainnet'' then Fin 115000
         else if n = ''main'' then Fin 115000
         else Fin 0)"

definition BLOCK_SECONDS_TARGET :: jsnum where
  "BLOCK_SECONDS_TARGET = Fin 60"

definition TESTNET_MAX_BLOCK_SECONDS :: jsnum where
  "TESTNET_MAX_BLOCK_SECONDS = Fin 1200"

section \<open>The legacy estimate\<close>

definition EPOCH_BLOCK_LENGTH :: jsnum where
  "EPOCH_BLOCK_LENGTH = Fin 1"

definition blocksInEpoch :: "jsnum \<Rightarrow> jsnum" where
  "blocksInEpoch blockHeight =
     (if jle (Fin 0) blockHeight then jmod blockHeight EPOCH_BLOCK_LENGTH else Fin 0)"

definition actualTimespan :: "jsnum \<Rightarrow> jsnum \<Rightarrow> jsnum \<Rightarrow> jsnum \<Rightarrow> jsnum" where
  "actualTimespan blockHeight latestBlockTimestamp nowSeconds DATime =
     jsub (if jeq (blocksInEpoch blockHeight) (Fin 2015) then latestBlockTimestamp
           else nowSeconds) DATime"

text \<open>The initial value of the variable \<^verbatim>\<open>timeAvgSecs\<close>, before the testnet cap.\<close>

definition timeAvgSecs_init :: "jsnum \<Rightarrow> jsnum \<Rightarrow> jsnum" where
  "timeAvgSecs_init blockHeight diffSeconds =
     (if truthy (blocksInEpoch blockHeight) then jdiv diffSeconds (blocksInEpoch blockHeight)
      else BLOCK_SECONDS_TARGET)"

text \<open>The unclamped \<^verbatim>\<open>difficultyChange\<close> and \<^verbatim>\<open>adjustedTimeAvgSecs\<close> of the two branches on
  \<^verbatim>\<open>quarterEpochTime && blocksInEpoch < 503\<close>; \<^verbatim>\<open>null\<close> is \<open>None\<close>.\<close>

definition legacy_estimate ::
  "jsnum \<Rightarrow> jsnum option \<Rightarrow> jsnum \<Rightarrow> jsnum \<Rightarrow> jsnum \<Rightarrow> jsnum \<Rightarrow> jsnum \<times> jsnum" where
  "legacy_estimate DATime quarterEpochTime nowSeconds blockHeight previousRetarget
       latestBlockTimestamp =
     (let diffSeconds = Math_max (Fin 0) (jsub nowSeconds DATime);
          timeAvgSecs = timeAvgSecs_init blockHeight diffSeconds
      in case quarterEpochTime of
           Some q \<Rightarrow>
             if truthy q \<and> jlt (blocksInEpoch blockHeight) (Fin 503) then
               let timeLastEpoch = jsub DATime q;
                   adjustedTimeLastEpoch =
                     jmul timeLastEpoch (jadd (Fin 1) (jdiv previousRetarget (Fin 100)));
                   adjustedTimeSpan = jadd diffSeconds adjustedTimeLastEpoch
               in (jmul (jsub (jdiv BLOCK_SECONDS_TARGET (jdiv adjustedTimeSpan (Fin 504)))
                              (Fin 1)) (Fin 100),
                   jdiv adjustedTimeSpan (Fin 503))
             else
               (jmul (jsub (jdiv BLOCK_SECONDS_TARGET
                              (jdiv (actualTimespan blockHeight latestBlockTimestamp
                                       nowSeconds DATime)
                                    (jadd (blocksInEpoch blockHeight) (Fin 1))))
                           (Fin 1)) (Fin 100),
                timeAvgSecs)
         | None \<Rightarrow>
               (jmul (jsub (jdiv BLOCK_SECONDS_TARGET
                              (jdiv (actualTimespan blockHeight latestBlockTimestamp
                                       nowSeconds DATime)
                                    (jadd (blocksInEpoch blockHeight) (Fin 1))))
                           (Fin 1)) (Fin 100),
                timeAvgSecs))"

text \<open>The legacy clamp: two successive \<^verbatim>\<open>if\<close> statements.\<close>

definition legacy_clamp :: "jsnum \<Rightarrow> jsnum" where
  "legacy_clamp difficultyChange =
     (let d = (if jlt (Fin 300) difficultyChange then Fin 300 else difficultyChange)
      in if jlt d (Fin (- 75)) then Fin (- 75) else d)"

text \<open>The testnet tweak: the pair of the variables \<^verbatim>\<open>timeAvgSecs\<close> and \<^verbatim>\<open>timeOffset\<close>
  after it.\<close>

definition testnet_tweak :: "string \<Rightarrow> jsnum \<Rightarrow> jsnum \<Rightarrow> jsnum \<Rightarrow> jsnum \<times> jsnum" where
  "testnet_tweak network timeAvgSecs nowSeconds latestBlockTimestamp =
     (if toLowerCase network = ''testnet'' then
        let timeAvgSecs' = (if jlt TESTNET_MAX_BLOCK_SECONDS timeAvgSecs
                            then TESTNET_MAX_BLOCK_SECONDS else timeAvgSecs);
            secondsSinceLastBlock = jsub nowSeconds latestBlockTimestamp
        in if jlt TESTNET_MAX_BLOCK_SECONDS (jadd secondsSinceLastBlock timeAvgSecs')
           then (timeAvgSecs',
                 jmul (jneg (Math_min secondsSinceLastBlock TESTNET_MAX_BLOCK_SECONDS))
                      (Fin 1000))
           else (timeAvgSecs', Fin 0)
      else (timeAvgSecs, Fin 0))"

section \<open>The difficulty adjustment summary\<close>

record DifficultyAdjustment =
  progressPercent :: jsnum
  difficultyChange :: jsnum
  estimatedRetargetDate :: jsnum
  remainingBlocks :: jsnum
  remainingTime :: jsnum
  previousRetarget :: jsnum
  previousTime :: jsnum
  nextRetargetHeight :: jsnum
  timeAvg :: jsnum
  adjustedTimeAvg :: jsnum
  timeOffset :: jsnum
  expectedBlocks :: jsnum

text \<open>A block of the recent-blocks cache; only these two fields are read here.\<close>

record block =
  bits :: jsnum
  timestamp :: jsnum

text \<open>Reading an array at an index: \<^verbatim>\<open>undefined\<close> (here \<open>None\<close>) out of range.\<close>

definition array_get :: "'a list \<Rightarrow> int \<Rightarrow> 'a option" where
  "array_get xs i = (if 0 \<le> i \<and> i < int (length xs) then Some (xs ! nat i) else None)"

subsection \<open>Pre-activation: the legacy view\<close>

definition legacy_view ::
  "jsnum \<Rightarrow> jsnum option \<Rightarrow> jsnum \<Rightarrow> jsnum \<Rightarrow> jsnum \<Rightarrow> string \<Rightarrow> jsnum
     \<Rightarrow> DifficultyAdjustment" where
  "legacy_view =
     (\<lambda>DATime quarterEpochTime nowSeconds blockHeight previousRetarget network
        latestBlockTimestamp.
      let diffSeconds = Math_max (Fin 0) (jsub nowSeconds DATime);
          progressPercent =
            (if jle (Fin 0) blockHeight
             then jmul (jdiv (blocksInEpoch blockHeight) EPOCH_BLOCK_LENGTH) (Fin 100)
             else Fin 100);
          remainingBlocks = jsub EPOCH_BLOCK_LENGTH (blocksInEpoch blockHeight);
          nextRetargetHeight =
            (if jle (Fin 0) blockHeight then jadd blockHeight remainingBlocks else Fin 0);
          expectedBlocks = jdiv diffSeconds BLOCK_SECONDS_TARGET;
          (difficultyChange0, adjustedTimeAvgSecs) =
            legacy_estimate DATime quarterEpochTime nowSeconds blockHeight previousRetarget
              latestBlockTimestamp;
          difficultyChange = legacy_clamp difficultyChange0;
          (timeAvgSecs, timeOffset) =
            testnet_tweak network (timeAvgSecs_init blockHeight diffSeconds) nowSeconds
              latestBlockTimestamp;
          timeAvg = Math_floor (jmul timeAvgSecs (Fin 1000));
          adjustedTimeAvg = Math_floor (jmul adjustedTimeAvgSecs (Fin 1000));
          remainingTime = jmul remainingBlocks adjustedTimeAvg;
          estimatedRetargetDate = jadd remainingTime (jmul nowSeconds (Fin 1000))
      in \<lparr> progressPercent = progressPercent,
           difficultyChange = difficultyChange,
           estimatedRetargetDate = estimatedRetargetDate,
           remainingBlocks = remainingBlocks,
           remainingTime = remainingTime,
           previousRetarget = previousRetarget,
           previousTime = DATime,
           nextRetargetHeight = nextRetargetHeight,
           timeAvg = timeAvg,
           adjustedTimeAvg = adjustedTimeAvg,
           timeOffset = timeOffset,
           expectedBlocks = expectedBlocks \<rparr>)"

subsection \<open>Post-activation: the per-block view\<close>

text \<open>
  The recent-blocks cache \<^verbatim>\<open>blocks.getBlocks?.() ?? []\<close> is read from the provider; here it
  is the argument \<open>cache\<close>. \<^verbatim>\<open>latest && prev\<close> holds when both reads are in range.
\<close>

definition perBlockChange :: "block list \<Rightarrow> error + jsnum" where
  "perBlockChange cache =
     (let latest = array_get cache (int (length cache) - 1);
          prev = array_get cache (int (length cache) - 2)
      in case latest of
           None \<Rightarrow> Inr (Fin 0)
         | Some l \<Rightarrow>
            (case prev of
               None \<Rightarrow> Inr (Fin 0)
             | Some p \<Rightarrow>
                (case pctChangeFromBits (bits p) (bits l) of
                   Inl e \<Rightarrow> Inl e
                 | Inr raw \<Rightarrow>
                     let DIGI_MAX_UP = Fin 33.34;
                         DIGI_MAX_DOWN = Fin (- 33.34)
                     in Inr (Math_max (Math_min raw DIGI_MAX_UP) DIGI_MAX_DOWN))))"

definition perblock_view ::
  "jsnum \<Rightarrow> jsnum \<Rightarrow> jsnum \<Rightarrow> jsnum \<Rightarrow> jsnum \<Rightarrow> jsnum \<Rightarrow> DifficultyAdjustment" where
  "perblock_view =
     (\<lambda>perBlockChange DATime nowSeconds blockHeight previousRetarget latestBlockTimestamp.
      let progressPercent = Fin 100;
          remainingBlocks = Fin 1;
          timeAvgSecs =
            (let m = Math_max (Fin 1) (jsub nowSeconds latestBlockTimestamp)
             in if truthy m then m else BLOCK_SECONDS_TARGET);
          adjustedTimeAvgSecs = BLOCK_SECONDS_TARGET;
          timeAvg = Math_floor (jmul timeAvgSecs (Fin 1000));
          adjustedTimeAvg = Math_floor (jmul adjustedTimeAvgSecs (Fin 1000));
          remainingTime = adjustedTimeAvg;
          estimatedRetargetDate = jadd (jmul nowSeconds (Fin 1000)) remainingTime
      in \<lparr> progressPercent = progressPercent,
           difficultyChange = perBlockChange,
           estimatedRetargetDate = estimatedRetargetDate,
           remainingBlocks = remainingBlocks,
           remainingTime = remainingTime,
           previousRetarget = previousRetarget,
           previousTime = DATime,
           nextRetargetHeight = jadd blockHeight (Fin 1),
           timeAvg = timeAvg,
           adjustedTimeAvg = adjustedTimeAvg,
           timeOffset = Fin 0,
           expectedBlocks = Fin 1 \<rparr>)"

subsection \<open>\<^verbatim>\<open>calcDifficultyAdjustment\<close>\<close>

definition calcDifficultyAdjustment ::
  "jsnum \<Rightarrow> jsnum option \<Rightarrow> jsnum \<Rightarrow> jsnum \<Rightarrow> jsnum \<Rightarrow> string \<Rightarrow> jsnum \<Rightarrow> block list
     \<Rightarrow> error + DifficultyAdjustment" where
  "calcDifficultyAdjustment =
     (\<lambda>DATime quarterEpochTime nowSeconds blockHeight previousRetarget network
        latestBlockTimestamp cache.
      let activation = getActivationHeight network
      in if jlt blockHeight activation then
           Inr (legacy_view DATime quarterEpochTime nowSeconds blockHeight previousRetarget
                  network latestBlockTimestamp)
         else
           (case perBlockChange cache of
              Inl e \<Rightarrow> Inl e
            | Inr change \<Rightarrow>
                Inr (perblock_view change DATime nowSeconds blockHeight previousRetarget
                       latestBlockTimestamp)))"

section \<open>The API wrapper\<close>

text \<open>
  The state of the block-data provider \<^verbatim>\<open>blocks\<close> that the wrapper reads. A value whose
  \<^verbatim>\<open>typeof\<close> is not \<^verbatim>\<open>'number'\<close> (such as \<^verbatim>\<open>undefined\<close>) is \<open>None\<close>, and so are
  \<^verbatim>\<open>null\<close> and \<^verbatim>\<open>undefined\<close> for the height and the quarter-epoch time. The wall clock
  \<^verbatim>\<open>Date.now()\<close> and the configured network \<^verbatim>\<open>config.MEMPOOL.NETWORK\<close> are arguments.
\<close>

record provider =
  getLastDifficultyAdjustmentTime :: "jsnum option"
  getPreviousDifficultyRetarget :: "jsnum option"
  getCurrentBlockHeight :: "jsnum option"
  getBlocks :: "block list"
  getQuarterEpochBlockTime :: "jsnum option"

definition getDifficultyAdjustment ::
  "provider \<Rightarrow> jsnum \<Rightarrow> string \<Rightarrow> error + DifficultyAdjustment option" where
  "getDifficultyAdjustment blocks Date_now network =
     (let blockHeight = (case getCurrentBlockHeight blocks of None \<Rightarrow> Fin 0 | Some h \<Rightarrow> h);
          cache = getBlocks blocks;
          latest = array_get cache (int (length cache) - 1)
      in case latest of
           None \<Rightarrow> Inr None
         | Some l \<Rightarrow>
            (case getLastDifficultyAdjustmentTime blocks of
               None \<Rightarrow> Inr None
             | Some DATime \<Rightarrow>
                (case getPreviousDifficultyRetarget blocks of
                   None \<Rightarrow> Inr None
                 | Some previousRetarget' \<Rightarrow>
                     let nowSeconds = Math_floor (jdiv Date_now (Fin 1000));
                         quarterEpochBlockTime = getQuarterEpochBlockTime blocks
                     in (case calcDifficultyAdjustment DATime quarterEpochBlockTime nowSeconds
                                blockHeight previousRetarget' network (timestamp l) cache of
                           Inl e \<Rightarrow> Inl e
                         | Inr r \<Rightarrow> Inr (Some r)))))"

section \<open>The compact encoding in the words of the specification\<close>

text \<open>
  The specification describes a compact target as an exponent byte, a 23-bit mantissa and
  a sign bit, and decoding as a shift of the mantissa by whole bytes. These definitions say
  so with division and remainder on the integer value of \<^verbatim>\<open>bits\<close>; \<open>compactToTarget\<close>
  above is compared with them.
\<close>

definition compact_exponent :: "int \<Rightarrow> int" where
  "compact_exponent b = (b div 2 ^ 24) mod 256"

definition compact_mantissa :: "int \<Rightarrow> int" where
  "compact_mantissa b = b mod 2 ^ 23"

definition compact_sign_bit :: "int \<Rightarrow> bool" where
  "compact_sign_bit b = ((b div 2 ^ 23) mod 2 = 1)"

text \<open>Malformed: non-integer, non-positive, sign bit set, or zero mantissa.\<close>

fun malformed_spec :: "jsnum \<Rightarrow> bool" where
  "malformed_spec (Fin a) =
     (a \<noteq> of_int \<lfloor>a\<rfloor> \<or> a \<le> 0 \<or> compact_sign_bit \<lfloor>a\<rfloor> \<or> compact_mantissa \<lfloor>a\<rfloor> = 0)"
| "malformed_spec _ = True"

text \<open>The mantissa shifted right by \<open>8 * (3 - exponent)\<close> bits when the exponent is at
  most 3, and left by \<open>8 * (exponent - 3)\<close> bits otherwise.\<close>

definition shifted_mantissa_spec :: "int \<Rightarrow> int" where
  "shifted_mantissa_spec b =
     (if compact_exponent b \<le> 3
      then compact_mantissa b div 2 ^ nat (8 * (3 - compact_exponent b))
      else compact_mantissa b * 2 ^ nat (8 * (compact_exponent b - 3)))"

section \<open>The shape of a per-block summary\<close>

text \<open>A summary is per-block-era shaped when the progress is 100 percent, one block
  remains, one block is expected and the next retarget is at the next height.\<close>

definition perblock_shaped :: "jsnum \<Rightarrow> DifficultyAdjustment \<Rightarrow> bool" where
  "perblock_shaped blockHeight s =
     (progressPercent s = Fin 100 \<and> remainingBlocks s = Fin 1 \<and> expectedBlocks s = Fin 1 \<and>
      nextRetargetHeight s = jadd blockHeight (Fin 1))"

section \<open>Decoding compact targets\<close>

subsection \<open>The bit operations as division and remainder\<close>

lemma mask23: "(0x007fffff :: 32 word) = mask 23"
  by (simp add: mask_eq_exp_minus_1)

lemma mask8: "(0xff :: 32 word) = mask 8"
  by (simp add: mask_eq_exp_minus_1)

lemma sint_take_bit_small:
  "n < 31 \<Longrightarrow> sint (word_of_int (take_bit n k) :: 32 word) = take_bit n k"
  by (simp add: sint_sbintrunc') (rule bit_eqI, auto simp add: bit_simps)

lemma and_mantissa_mask:
  "(word_of_int b :: 32 word) AND 0x007fffff = word_of_int (take_bit 23 b)"
  unfolding mask23 by (rule bit_word_eqI) (auto simp add: bit_simps)

lemma mant_eq: "sint ((word_of_int b :: 32 word) AND 0x007fffff) = compact_mantissa b"
proof -
  have "sint ((word_of_int b :: 32 word) AND 0x007fffff) = take_bit 23 b"
    unfolding and_mantissa_mask by (rule sint_take_bit_small) simp
  then show ?thesis by (simp add: take_bit_eq_mod compact_mantissa_def)
qed

lemma shift_exponent_mask:
  "word_of_int (uint (drop_bit 24 (word_of_int b :: 32 word))) AND (0xff :: 32 word)
     = word_of_int (take_bit 8 (drop_bit 24 b))"
  unfolding mask8 by (rule bit_word_eqI) (auto simp add: bit_simps)

lemma exp_eq:
  "sint (word_of_int (uint (drop_bit 24 (word_of_int b :: 32 word))) AND (0xff :: 32 word))
     = compact_exponent b"
proof -
  have "sint (word_of_int (uint (drop_bit 24 (word_of_int b :: 32 word))) AND (0xff :: 32 word))
          = take_bit 8 (drop_bit 24 b)"
    unfolding shift_exponent_mask by (rule sint_take_bit_small) simp
  then show ?thesis by (simp add: take_bit_eq_mod drop_bit_eq_div compact_exponent_def)
qed

lemma sign_eq:
  "(sint ((word_of_int b :: 32 word) AND 0x00800000) \<noteq> 0) = compact_sign_bit b"
proof -
  have p: "(0x00800000 :: 32 word) = 2 ^ 23" by simp
  have "(sint ((word_of_int b :: 32 word) AND 0x00800000) \<noteq> 0)
          = ((word_of_int b :: 32 word) AND 2 ^ 23 \<noteq> 0)"
    unfolding p by (simp add: signed_eq_0_iff)
  also have "\<dots> = bit (word_of_int b :: 32 word) 23"
    using and_exp_eq_0_iff_not_bit [of "word_of_int b :: 32 word" 23] by blast
  also have "\<dots> = bit b 23"
    by (simp add: bit_simps)
  also have "\<dots> = ((b div 2 ^ 23) mod 2 = 1)"
    by (simp add: bit_int_def odd_iff_mod_2_eq_one)
  finally show ?thesis by (simp add: compact_sign_bit_def)
qed

subsection \<open>\<^verbatim>\<open>compactToTarget\<close> against the specification\<close>

lemma compactToTarget_Fin:
  "compactToTarget (Fin a) =
     (if malformed_spec (Fin a) then Inl InvalidBits else Inr (shifted_mantissa_spec \<lfloor>a\<rfloor>))"
proof (cases "a = of_int \<lfloor>a\<rfloor> \<and> 0 < a")
  case False
  then show ?thesis by (auto simp add: compactToTarget_def)
next
  case True
  then have t: "ToInteger a = \<lfloor>a\<rfloor>" by (simp add: ToInteger_def)
  from True have g: "\<not> (\<not> Number_isInteger (Fin a) \<or> jle (Fin a) (Fin 0))" by simp
  show ?thesis
    unfolding compactToTarget_def if_not_P [OF g] ToUint32.simps t Let_def mant_eq exp_eq sign_eq
    using True
    by (simp add: shifted_mantissa_spec_def drop_bit_eq_div push_bit_eq_mult)
qed

lemma compactToTarget_not_Fin:
  "\<forall>a. x \<noteq> Fin a \<Longrightarrow> compactToTarget x = Inl InvalidBits"
  by (cases x) (simp_all add: compactToTarget_def)

lemma shifted_mantissa_sign:
  assumes "compact_mantissa b \<noteq> 0"
  shows "0 \<le> shifted_mantissa_spec b"
    and "(0 < shifted_mantissa_spec b)
           = (2 ^ nat (8 * (3 - compact_exponent b)) \<le> compact_mantissa b)"
proof -
  have m: "1 \<le> compact_mantissa b"
    using assms by (simp add: compact_mantissa_def)
  show "0 \<le> shifted_mantissa_spec b"
    using m by (simp add: shifted_mantissa_spec_def pos_imp_zdiv_nonneg_iff)
  show "(0 < shifted_mantissa_spec b)
          = (2 ^ nat (8 * (3 - compact_exponent b)) \<le> compact_mantissa b)"
    using m by (simp add: shifted_mantissa_spec_def pos_imp_zdiv_pos_iff)
qed

text \<open>
  C5. \<open>compactToTarget\<close> throws exactly on the malformed inputs (a non-integer, a
  non-positive number, a set sign bit, a zero mantissa), and on every other input it returns
  the mantissa shifted right by \<open>8 * (3 - exponent)\<close> bits when the exponent is at most 3
  and shifted left by \<open>8 * (exponent - 3)\<close> bits otherwise.
\<close>

theorem compactToTarget_decodes:
  "(compactToTarget x = Inl InvalidBits) = malformed_spec x \<and>
   (\<not> malformed_spec (Fin a) \<longrightarrow>
      compactToTarget (Fin a) = Inr (shifted_mantissa_spec \<lfloor>a\<rfloor>))"
  by (cases x) (simp_all add: compactToTarget_Fin compactToTarget_not_Fin)

theorem compactToTarget_decodes_witness:
  "\<not> malformed_spec (Fin 0x1d00ffff) \<and> malformed_spec (Fin 0x1d80ffff) \<and>
   compactToTarget (Fin 0x1d80ffff) = Inl InvalidBits \<and>
   compactToTarget (Fin 0x1d00ffff) = Inr (0xffff * 2 ^ 208)"
proof -
  have h: "\<not> malformed_spec (Fin 0x1d00ffff)"
    by (simp add: compact_sign_bit_def compact_mantissa_def)
  have g: "malformed_spec (Fin 0x1d80ffff)"
    by (simp add: compact_sign_bit_def)
  have v: "shifted_mantissa_spec \<lfloor>0x1d00ffff :: real\<rfloor> = 0xffff * 2 ^ 208"
    by (simp add: shifted_mantissa_spec_def compact_exponent_def compact_mantissa_def)
  show ?thesis
    using h g v compactToTarget_decodes [of "Fin 0x1d80ffff" "0x1d00ffff"] by simp
qed

text \<open>
  C1, as the code has it. A well-formed \<^verbatim>\<open>bits\<close> value decodes to a target that is never
  negative; it is positive exactly when the mantissa survives the right shift, that is when
  \<open>2 ^ (8 * (3 - exponent)) \<le> mantissa\<close>, and so in particular whenever the exponent is at
  least 3. With a smaller exponent the shift can lose every set bit: \<^verbatim>\<open>bits = 1\<close> has
  exponent 0 and mantissa 1 and decodes to the target 0.
\<close>

theorem compactToTarget_nonneg:
  "\<not> malformed_spec (Fin a) \<Longrightarrow>
   \<exists>t. compactToTarget (Fin a) = Inr t \<and> 0 \<le> t \<and>
       (0 < t) = (2 ^ nat (8 * (3 - compact_exponent \<lfloor>a\<rfloor>)) \<le> compact_mantissa \<lfloor>a\<rfloor>) \<and>
       (3 \<le> compact_exponent \<lfloor>a\<rfloor> \<longrightarrow> 0 < t)"
proof -
  assume wf: "\<not> malformed_spec (Fin a)"
  then have m: "compact_mantissa \<lfloor>a\<rfloor> \<noteq> 0" by simp
  have r: "compactToTarget (Fin a) = Inr (shifted_mantissa_spec \<lfloor>a\<rfloor>)"
    using wf by (simp add: compactToTarget_Fin)
  have p: "3 \<le> compact_exponent \<lfloor>a\<rfloor> \<longrightarrow> 0 < shifted_mantissa_spec \<lfloor>a\<rfloor>"
    using m shifted_mantissa_sign(2) [OF m]
    by (auto simp add: compact_mantissa_def)
  show ?thesis
    using r p shifted_mantissa_sign [OF m] by simp
qed

theorem compactToTarget_nonneg_witness:
  "\<not> malformed_spec (Fin 0x1d00ffff) \<and>
   (\<exists>t. compactToTarget (Fin 0x1d00ffff) = Inr t \<and> 0 < t)"
proof -
  have h: "\<not> malformed_spec (Fin 0x1d00ffff)"
    by (simp add: compact_sign_bit_def compact_mantissa_def)
  have e: "(3::int) \<le> compact_exponent \<lfloor>0x1d00ffff :: real\<rfloor>"
    by (simp add: compact_exponent_def)
  show ?thesis
    using h e compactToTarget_nonneg [OF h] by blast
qed

theorem compactToTarget_zero_counterexample:
  "\<not> malformed_spec (Fin 1) \<and> compactToTarget (Fin 1) = Inr 0"
  by (simp add: compact_sign_bit_def compact_mantissa_def compactToTarget_def ToInteger_def)

section \<open>Percentage change between two compact targets\<close>

lemma sdiv_scaled_self: "t \<noteq> 0 \<Longrightarrow> (t * 1000000) sdiv t = (1000000 :: int)"
proof -
  assume t: "t \<noteq> 0"
  have a: "\<bar>t * 1000000\<bar> div \<bar>t\<bar> = 1000000"
    using t by (simp add: abs_mult)
  have s: "sgn (t * 1000000) * sgn t = 1"
    using t by (simp add: sgn_mult)
  show ?thesis
    unfolding signed_divide_int_def s a by simp
qed

text \<open>
  C8, as the code has it. When \<^verbatim>\<open>bits\<close> decodes to a target other than 0, the change of
  \<^verbatim>\<open>bits\<close> against itself is exactly 0. When it decodes to 0 (as \<^verbatim>\<open>bits = 1\<close> does), the
  division by the new target throws a \<^verbatim>\<open>RangeError\<close>.
\<close>

theorem pctChangeFromBits_self:
  "compactToTarget b = Inr t \<Longrightarrow>
   pctChangeFromBits b b = (if t = 0 then Inl RangeError else Inr (Fin 0))"
  by (simp add: pctChangeFromBits_def Let_def sdiv_scaled_self Number_def jsub_def)

theorem pctChangeFromBits_self_witness:
  "compactToTarget (Fin 0x1d00ffff) = Inr (0xffff * 2 ^ 208) \<and>
   pctChangeFromBits (Fin 0x1d00ffff) (Fin 0x1d00ffff) = Inr (Fin 0)"
proof -
  have h: "compactToTarget (Fin 0x1d00ffff) = Inr (0xffff * 2 ^ 208)"
    by (simp add: compactToTarget_def ToInteger_def push_bit_eq_mult)
  show ?thesis
    using h pctChangeFromBits_self [OF h] by simp
qed

theorem pctChangeFromBits_self_counterexample:
  "\<not> malformed_spec (Fin 1) \<and> pctChangeFromBits (Fin 1) (Fin 1) = Inl RangeError"
  by (simp add: compact_sign_bit_def compact_mantissa_def compactToTarget_def ToInteger_def
      pctChangeFromBits_def)

text \<open>The sign of the raw change, and when it passes the per-block bound.\<close>

lemma int_div_less_iff:
  assumes "0 < (n::int)"
  shows "(a div n < k) = (a < k * n)"
proof
  have d: "a div n * n + a mod n = a" by (rule div_mult_mod_eq)
  have b: "a mod n < n" using assms by (rule pos_mod_bound)
  assume "a div n < k"
  then have "a div n + 1 \<le> k" by simp
  then have "(a div n + 1) * n \<le> k * n"
    using assms by (simp only: mult_right_mono less_imp_le)
  then have "a div n * n + n \<le> k * n"
    by (simp add: distrib_right)
  with d b show "a < k * n" by linarith
next
  have d: "a div n * n + a mod n = a" by (rule div_mult_mod_eq)
  have s: "0 \<le> a mod n" using assms by (rule pos_mod_sign)
  assume l: "a < k * n"
  show "a div n < k"
  proof (rule ccontr)
    assume "\<not> a div n < k"
    then have "k \<le> a div n" by simp
    then have "k * n \<le> a div n * n"
      using assms by (simp only: mult_right_mono less_imp_le)
    with d s l show False by linarith
  qed
qed

lemma compactToTarget_result_nonneg: "compactToTarget x = Inr t \<Longrightarrow> 0 \<le> t"
proof (cases x)
  case (Fin a)
  assume r: "compactToTarget x = Inr t"
  then have wf: "\<not> malformed_spec (Fin a)" and t: "t = shifted_mantissa_spec \<lfloor>a\<rfloor>"
    unfolding Fin compactToTarget_Fin by (simp_all split: if_splits)
  from wf have "compact_mantissa \<lfloor>a\<rfloor> \<noteq> 0" by simp
  then show ?thesis unfolding t by (rule shifted_mantissa_sign(1))
qed (simp_all add: compactToTarget_def)

lemma pctChangeFromBits_sign:
  assumes "compactToTarget oldBits = Inr oldT" and "compactToTarget newBits = Inr newT"
    and "0 \<le> oldT" and "0 < newT"
  shows "\<exists>raw. pctChangeFromBits oldBits newBits = Inr (Fin raw) \<and>
               (raw < 0) = (oldT < newT) \<and>
               (raw < - 33.34) = (oldT * 1000000 < 666600 * newT)"
proof -
  let ?q = "(oldT * 1000000) div newT"
  have sd: "(oldT * 1000000) sdiv newT = ?q"
  proof (cases "oldT = 0")
    case True
    then show ?thesis by (simp add: signed_divide_int_def)
  next
    case False
    with assms(3) have "0 < oldT" by simp
    then show ?thesis
      using assms(4) by (simp add: signed_divide_int_def sgn_mult abs_mult)
  qed
  have r: "pctChangeFromBits oldBits newBits
             = Inr (Fin ((real_of_int ?q / 1000000 - 1) * 100))"
    using assms by (simp add: pctChangeFromBits_def Let_def sd Number_def jsub_def)
  have a: "(?q < 1000000) = (oldT < newT)"
    using int_div_less_iff [OF assms(4), of "oldT * 1000000" 1000000] by simp
  have b: "(?q < 666600) = (oldT * 1000000 < 666600 * newT)"
    using int_div_less_iff [OF assms(4), of "oldT * 1000000" 666600] by simp
  have a': "((real_of_int ?q / 1000000 - 1) * 100 < 0) = (?q < 1000000)"
    by (simp add: field_simps)
  have b': "((real_of_int ?q / 1000000 - 1) * 100 < - 33.34) = (?q < 666600)"
    by (simp add: field_simps)
  show ?thesis
    unfolding r using a b a' b' by simp
qed

section \<open>The per-block era\<close>

lemma array_get_nat:
  "array_get xs (int n) = (if n < length xs then Some (xs ! n) else None)"
  by (simp add: array_get_def)

lemma array_get_last_two:
  "array_get (pre @ [p, l]) (int (length (pre @ [p, l])) - 1) = Some l"
  "array_get (pre @ [p, l]) (int (length (pre @ [p, l])) - 2) = Some p"
proof -
  have a: "int (length (pre @ [p, l])) - 1 = int (Suc (length pre))" by simp
  have b: "int (length (pre @ [p, l])) - 2 = int (length pre)" by simp
  show "array_get (pre @ [p, l]) (int (length (pre @ [p, l])) - 1) = Some l"
    unfolding a array_get_nat by (simp add: nth_append)
  show "array_get (pre @ [p, l]) (int (length (pre @ [p, l])) - 2) = Some p"
    unfolding b array_get_nat by (simp add: nth_append)
qed

lemma array_get_short:
  "length cache < 2 \<Longrightarrow> array_get cache (int (length cache) - 2) = None"
  by (simp add: array_get_def)

lemma perBlockChange_short: "length cache < 2 \<Longrightarrow> perBlockChange cache = Inr (Fin 0)"
  by (simp add: perBlockChange_def Let_def array_get_short split: option.splits)

lemma perBlockChange_pair:
  "perBlockChange (pre @ [p, l]) =
     (case pctChangeFromBits (bits p) (bits l) of
        Inl e \<Rightarrow> Inl e
      | Inr raw \<Rightarrow> Inr (Math_max (Math_min raw (Fin 33.34)) (Fin (- 33.34))))"
  unfolding perBlockChange_def Let_def array_get_last_two by simp

lemma mainnet_activation: "getActivationHeight ''mainnet'' = Fin 115000"
  by (simp add: getActivationHeight_def toLowerCase_def char_of_eq_iff)

lemma difficultyChange_perblock_view:
  "difficultyChange (perblock_view c DATime nowSeconds h pr lts) = c"
  by (simp add: perblock_view_def Let_def)

lemma clamp_below: "0 \<le> u \<Longrightarrow> jlt raw (Fin (- u)) \<Longrightarrow>
   Math_max (Math_min raw (Fin u)) (Fin (- u)) = Fin (- u)"
  by (cases raw) (auto simp add: Math_max_def Math_min_def)

lemma clamp_above: "0 \<le> u \<Longrightarrow> jlt (Fin u) raw \<Longrightarrow>
   Math_max (Math_min raw (Fin u)) (Fin (- u)) = Fin u"
  by (cases raw) (auto simp add: Math_max_def Math_min_def)

text \<open>
  C2, as the code has it. On mainnet at height 115000, with the previous and the latest
  block at the end of the cache and both \<^verbatim>\<open>bits\<close> decoding, the latest to a target other than
  0: the raw change \<^verbatim>\<open>pctChangeFromBits(prev.bits, latest.bits)\<close> is a change of difficulty,
  negative exactly when the latest target is the larger (easier) one. When it is below
  \<open>-33.34\<close> the difficulty change of the summary is \<open>-33.34\<close>, and when it is above
  \<open>33.34\<close> (the latest target is harder) it is \<open>33.34\<close>.
\<close>

theorem perBlockChange_at_activation:
  assumes "compactToTarget (bits prev) = Inr oldT"
    and "compactToTarget (bits latest) = Inr newT" and "newT \<noteq> 0"
  shows "\<exists>s raw. calcDifficultyAdjustment DATime quarterEpochTime nowSeconds (Fin 115000) pr
               ''mainnet'' latestBlockTimestamp (pre @ [prev, latest]) = Inr s \<and>
             pctChangeFromBits (bits prev) (bits latest) = Inr (Fin raw) \<and>
             (raw < 0) = (oldT < newT) \<and>
             (raw < - 33.34 \<longrightarrow> difficultyChange s = Fin (- 33.34)) \<and>
             (33.34 < raw \<longrightarrow> difficultyChange s = Fin 33.34)"
proof -
  have o: "0 \<le> oldT" and n: "0 < newT"
    using assms compactToTarget_result_nonneg [of "bits prev" oldT]
      compactToTarget_result_nonneg [of "bits latest" newT] by simp_all
  from pctChangeFromBits_sign [OF assms(1,2) o n]
  obtain raw where raw: "pctChangeFromBits (bits prev) (bits latest) = Inr (Fin raw)"
    and sg: "(raw < 0) = (oldT < newT)"
    by blast
  let ?c = "Math_max (Math_min (Fin raw) (Fin 33.34)) (Fin (- 33.34))"
  let ?s = "perblock_view ?c DATime nowSeconds (Fin 115000) pr latestBlockTimestamp"
  have c: "perBlockChange (pre @ [prev, latest]) = Inr ?c"
    unfolding perBlockChange_pair raw by simp
  have r: "calcDifficultyAdjustment DATime quarterEpochTime nowSeconds (Fin 115000) pr
             ''mainnet'' latestBlockTimestamp (pre @ [prev, latest]) = Inr ?s"
    unfolding calcDifficultyAdjustment_def mainnet_activation Let_def c by simp
  have lo: "raw < - 33.34 \<longrightarrow> ?c = Fin (- 33.34)"
    using clamp_below [of "33.34" "Fin raw"] by simp
  have hi: "33.34 < raw \<longrightarrow> ?c = Fin 33.34"
    using clamp_above [of "33.34" "Fin raw"] by simp
  show ?thesis
    unfolding r using raw sg lo hi by (simp add: difficultyChange_perblock_view)
qed

theorem perBlockChange_at_activation_witness:
  "compactToTarget (Fin 0x1d00ffff) = Inr (0xffff * 2 ^ 208) \<and>
   compactToTarget (Fin 0x1d01fffe) = Inr (0x1fffe * 2 ^ 208) \<and>
   pctChangeFromBits (Fin 0x1d00ffff) (Fin 0x1d01fffe) = Inr (Fin (- 50)) \<and>
   (\<exists>s. calcDifficultyAdjustment (Fin 1000) None (Fin 1100) (Fin 115000) (Fin 5) ''mainnet''
          (Fin 1060)
          [\<lparr>bits = Fin 0x1d00ffff, timestamp = Fin 1000\<rparr>,
           \<lparr>bits = Fin 0x1d01fffe, timestamp = Fin 1060\<rparr>] = Inr s \<and>
        difficultyChange s = Fin (- 33.34))"
proof -
  have o: "compactToTarget (bits \<lparr>bits = Fin 0x1d00ffff, timestamp = Fin 1000\<rparr>)
             = Inr (0xffff * 2 ^ 208)"
    and n: "compactToTarget (bits \<lparr>bits = Fin 0x1d01fffe, timestamp = Fin 1060\<rparr>)
             = Inr (0x1fffe * 2 ^ 208)"
    by (simp_all add: compactToTarget_def ToInteger_def push_bit_eq_mult)
  have z: "(0x1fffe * 2 ^ 208 :: int) \<noteq> 0" by simp
  have p: "pctChangeFromBits (Fin 0x1d00ffff) (Fin 0x1d01fffe) = Inr (Fin (- 50))"
    by (simp add: pctChangeFromBits_def compactToTarget_def ToInteger_def push_bit_eq_mult
        signed_divide_int_def Number_def jsub_def)
  show ?thesis
    using o n p
      perBlockChange_at_activation [OF o n z, of "Fin 1000" None "Fin 1100" "Fin 5" "Fin 1060" "[]"]
    by auto
qed

theorem perBlockChange_easier_counterexample:
  "compactToTarget (Fin 0x1d00ffff) = Inr (0xffff * 2 ^ 208) \<and>
   compactToTarget (Fin 0x1d01fffe) = Inr (0x1fffe * 2 ^ 208) \<and>
   pctChangeFromBits (Fin 0x1d00ffff) (Fin 0x1d01fffe) = Inr (Fin (- 50)) \<and>
   map_sum id difficultyChange
     (calcDifficultyAdjustment (Fin 1000) None (Fin 1100) (Fin 115000) (Fin 5) ''mainnet''
        (Fin 1060)
        [\<lparr>bits = Fin 0x1d00ffff, timestamp = Fin 1000\<rparr>,
         \<lparr>bits = Fin 0x1d01fffe, timestamp = Fin 1060\<rparr>]) = Inr (Fin (- 33.34)) \<and>
   Fin (- 33.34) \<noteq> Fin 33.34"
  by (simp add: calcDifficultyAdjustment_def getActivationHeight_def toLowerCase_def
      char_of_eq_iff perBlockChange_def array_get_def Let_def
      pctChangeFromBits_def compactToTarget_def ToInteger_def push_bit_eq_mult
      signed_divide_int_def Number_def jsub_def Math_max_def Math_min_def perblock_view_def)

lemma jle_not_jlt: "jle a b \<Longrightarrow> \<not> jlt b a"
  by (cases a; cases b) auto

lemma jle_trans: "jle a b \<Longrightarrow> jle b c \<Longrightarrow> jle a c"
  by (cases a; cases b; cases c) auto

lemma calc_perblock:
  "\<not> jlt blockHeight (getActivationHeight network) \<Longrightarrow>
   calcDifficultyAdjustment DATime quarterEpochTime nowSeconds blockHeight pr network
       latestBlockTimestamp cache =
     (case perBlockChange cache of
        Inl e \<Rightarrow> Inl e
      | Inr change \<Rightarrow>
          Inr (perblock_view change DATime nowSeconds blockHeight pr latestBlockTimestamp))"
  by (simp add: calcDifficultyAdjustment_def)

lemma calc_legacy:
  "jlt blockHeight (getActivationHeight network) \<Longrightarrow>
   calcDifficultyAdjustment DATime quarterEpochTime nowSeconds blockHeight pr network
       latestBlockTimestamp cache =
     Inr (legacy_view DATime quarterEpochTime nowSeconds blockHeight pr network
            latestBlockTimestamp)"
  by (simp add: calcDifficultyAdjustment_def)

lemma missing_block_iff:
  "(array_get cache (int (length cache) - 1) = None \<or>
    array_get cache (int (length cache) - 2) = None) = (length cache < 2)"
  by (auto simp add: array_get_def)

text \<open>
  C7. In the per-block era (the height is not below the activation height), when the
  latest or the preceding block is missing from the recent-blocks cache, that is when the
  cache holds fewer than two blocks, \<open>calcDifficultyAdjustment\<close> returns a summary, not an
  error, and its difficulty change is exactly 0.
\<close>

theorem missing_pair_zero_change:
  assumes "\<not> jlt blockHeight (getActivationHeight network)"
    and "array_get cache (int (length cache) - 1) = None \<or>
         array_get cache (int (length cache) - 2) = None"
  shows "\<exists>s. calcDifficultyAdjustment DATime quarterEpochTime nowSeconds blockHeight pr network
              latestBlockTimestamp cache = Inr s \<and>
            difficultyChange s = Fin 0"
proof -
  have "length cache < 2"
    using assms(2) by (simp only: missing_block_iff)
  then have "perBlockChange cache = Inr (Fin 0)"
    by (rule perBlockChange_short)
  then show ?thesis
    by (simp add: calc_perblock [OF assms(1)] difficultyChange_perblock_view)
qed

theorem missing_pair_zero_change_witness:
  "\<not> jlt (Fin 115000) (getActivationHeight ''mainnet'') \<and>
   array_get [\<lparr>bits = Fin 1, timestamp = Fin 1060\<rparr>]
     (int (length [\<lparr>bits = Fin 1, timestamp = Fin 1060\<rparr>]) - 2) = None \<and>
   (\<exists>s. calcDifficultyAdjustment (Fin 1000) None (Fin 1100) (Fin 115000) (Fin 5) ''mainnet''
          (Fin 1060) [\<lparr>bits = Fin 1, timestamp = Fin 1060\<rparr>] = Inr s \<and>
        difficultyChange s = Fin 0)"
proof -
  have h: "\<not> jlt (Fin 115000) (getActivationHeight ''mainnet'')"
    by (simp add: mainnet_activation)
  have p: "array_get [\<lparr>bits = Fin 1, timestamp = Fin 1060\<rparr>]
             (int (length [\<lparr>bits = Fin 1, timestamp = Fin 1060\<rparr>]) - 2) = None"
    by (simp add: array_get_def)
  then have l: "array_get [\<lparr>bits = Fin 1, timestamp = Fin 1060\<rparr>]
                  (int (length [\<lparr>bits = Fin 1, timestamp = Fin 1060\<rparr>]) - 1) = None \<or>
                array_get [\<lparr>bits = Fin 1, timestamp = Fin 1060\<rparr>]
                  (int (length [\<lparr>bits = Fin 1, timestamp = Fin 1060\<rparr>]) - 2) = None"
    by (rule disjI2)
  show ?thesis
    using h p missing_pair_zero_change [OF h l] by blast
qed

lemma perblock_view_shaped:
  "perblock_shaped h (perblock_view c DATime nowSeconds h pr lts)"
  by (simp add: perblock_shaped_def perblock_view_def Let_def)

lemma getActivationHeight_cases:
  "getActivationHeight network =
     (if toLowerCase network = ''mainnet'' \<or> toLowerCase network = ''main''
      then Fin 115000 else Fin 0)"
  by (simp add: getActivationHeight_def Let_def)

text \<open>
  C9. For a fixed network, once a height \<open>blockHeight\<close> has reached the activation height,
  the summary at every height \<open>h'\<close> from \<open>blockHeight\<close> on is per-block-era shaped: every
  summary that \<open>calcDifficultyAdjustment\<close> returns there has progress 100, one remaining
  block, one expected block and the next retarget at \<open>h' + 1\<close>, and it returns one
  whenever the change between the last two cached blocks can be computed. The activation
  height is 115000 for the networks \<open>mainnet\<close> and \<open>main\<close> (in any letter case) and 0 for
  every other network.
\<close>

theorem perblock_era_monotone:
  assumes "jle (getActivationHeight network) blockHeight" and "jle blockHeight h'"
  shows "(\<forall>s. calcDifficultyAdjustment DATime quarterEpochTime nowSeconds h' pr network
              latestBlockTimestamp cache = Inr s \<longrightarrow> perblock_shaped h' s) \<and>
         ((\<exists>s. calcDifficultyAdjustment DATime quarterEpochTime nowSeconds h' pr network
              latestBlockTimestamp cache = Inr s) = (\<exists>c. perBlockChange cache = Inr c)) \<and>
         getActivationHeight network =
           (if toLowerCase network = ''mainnet'' \<or> toLowerCase network = ''main''
            then Fin 115000 else Fin 0)"
proof -
  have "jle (getActivationHeight network) h'"
    using assms by (rule jle_trans)
  then have n: "\<not> jlt h' (getActivationHeight network)"
    by (rule jle_not_jlt)
  show ?thesis
    unfolding calc_perblock [OF n]
    by (auto simp add: perblock_view_shaped getActivationHeight_cases split: sum.splits)
qed

theorem perblock_era_monotone_witness:
  "jle (getActivationHeight ''mainnet'') (Fin 115000) \<and> jle (Fin 115000) (Fin 120000) \<and>
   (\<exists>s. calcDifficultyAdjustment (Fin 1000) None (Fin 1100) (Fin 120000) (Fin 5) ''mainnet''
          (Fin 1060)
          [\<lparr>bits = Fin 0x1d00ffff, timestamp = Fin 1000\<rparr>,
           \<lparr>bits = Fin 0x1d01fffe, timestamp = Fin 1060\<rparr>] = Inr s \<and>
        perblock_shaped (Fin 120000) s) \<and>
   getActivationHeight ''mainnet'' = Fin 115000 \<and>
   getActivationHeight ''regtest'' = Fin 0"
proof -
  let ?cache = "[\<lparr>bits = Fin 0x1d00ffff, timestamp = Fin 1000\<rparr>,
                 \<lparr>bits = Fin 0x1d01fffe, timestamp = Fin 1060\<rparr>]"
  have a: "jle (getActivationHeight ''mainnet'') (Fin 115000)"
    by (simp add: mainnet_activation)
  have b: "jle (Fin 115000) (Fin 120000)" by simp
  have lm: "toLowerCase ''mainnet'' = ''mainnet''" and lr: "toLowerCase ''regtest'' = ''regtest''"
    by (simp_all add: toLowerCase_def char_of_eq_iff)
  have r: "jle (getActivationHeight ''regtest'') (Fin 0)"
    by (simp add: getActivationHeight_def lr)
  have p: "pctChangeFromBits (Fin 0x1d00ffff) (Fin 0x1d01fffe) = Inr (Fin (- 50))"
    by (simp add: pctChangeFromBits_def compactToTarget_def ToInteger_def push_bit_eq_mult
        signed_divide_int_def Number_def jsub_def)
  have c: "\<exists>c. perBlockChange ?cache = Inr c"
    using perBlockChange_pair [of "[]" "\<lparr>bits = Fin 0x1d00ffff, timestamp = Fin 1000\<rparr>"
        "\<lparr>bits = Fin 0x1d01fffe, timestamp = Fin 1060\<rparr>"] p by simp
  note m = perblock_era_monotone [OF a b, of "Fin 1000" None "Fin 1100" "Fin 5" "Fin 1060" ?cache]
  have z: "jle (Fin 0) (Fin 0)" by simp
  note g = perblock_era_monotone [OF r z, of "Fin 1000" None "Fin 1100" "Fin 5" "Fin 1060" ?cache]
  have e: "\<exists>s. calcDifficultyAdjustment (Fin 1000) None (Fin 1100) (Fin 120000) (Fin 5)
             ''mainnet'' (Fin 1060) ?cache = Inr s \<and> perblock_shaped (Fin 120000) s"
    using m c by blast
  have am: "getActivationHeight ''mainnet'' = Fin 115000"
    using m by (simp add: lm)
  have ar: "getActivationHeight ''regtest'' = Fin 0"
    using g by (simp add: lr)
  show ?thesis
    using a b e am ar by blast
qed

section \<open>The wrapper without a baseline\<close>

text \<open>
  C6. When the last difficulty-adjustment time or the previous retarget is not a number, or
  the recent-blocks cache is empty so that there is no latest block, the wrapper
  \<open>getDifficultyAdjustment\<close> returns \<^verbatim>\<open>null\<close> (here \<open>Inr None\<close>) and does not throw.
\<close>

theorem facade_unavailable:
  "getLastDifficultyAdjustmentTime blocks = None \<or> getPreviousDifficultyRetarget blocks = None \<or>
   getBlocks blocks = [] \<Longrightarrow>
   getDifficultyAdjustment blocks Date_now network = Inr None"
  by (auto simp add: getDifficultyAdjustment_def Let_def array_get_def split: option.splits)

theorem facade_unavailable_witness:
  "getDifficultyAdjustment
     \<lparr>getLastDifficultyAdjustmentTime = None, getPreviousDifficultyRetarget = Some (Fin 5),
      getCurrentBlockHeight = Some (Fin 120000),
      getBlocks = [\<lparr>bits = Fin 1, timestamp = Fin 1060\<rparr>],
      getQuarterEpochBlockTime = None\<rparr> (Fin 1100500) ''mainnet'' = Inr None \<and>
   getDifficultyAdjustment
     \<lparr>getLastDifficultyAdjustmentTime = Some (Fin 1000), getPreviousDifficultyRetarget = None,
      getCurrentBlockHeight = Some (Fin 120000),
      getBlocks = [\<lparr>bits = Fin 1, timestamp = Fin 1060\<rparr>],
      getQuarterEpochBlockTime = None\<rparr> (Fin 1100500) ''mainnet'' = Inr None \<and>
   getDifficultyAdjustment
     \<lparr>getLastDifficultyAdjustmentTime = Some (Fin 1000),
      getPreviousDifficultyRetarget = Some (Fin 5),
      getCurrentBlockHeight = Some (Fin 120000),
      getBlocks = [],
      getQuarterEpochBlockTime = None\<rparr> (Fin 1100500) ''mainnet'' = Inr None"
proof -
  have a: "getDifficultyAdjustment
     \<lparr>getLastDifficultyAdjustmentTime = None, getPreviousDifficultyRetarget = Some (Fin 5),
      getCurrentBlockHeight = Some (Fin 120000),
      getBlocks = [\<lparr>bits = Fin 1, timestamp = Fin 1060\<rparr>],
      getQuarterEpochBlockTime = None\<rparr> (Fin 1100500) ''mainnet'' = Inr None"
    by (rule facade_unavailable) simp
  have b: "getDifficultyAdjustment
     \<lparr>getLastDifficultyAdjustmentTime = Some (Fin 1000), getPreviousDifficultyRetarget = None,
      getCurrentBlockHeight = Some (Fin 120000),
      getBlocks = [\<lparr>bits = Fin 1, timestamp = Fin 1060\<rparr>],
      getQuarterEpochBlockTime = None\<rparr> (Fin 1100500) ''mainnet'' = Inr None"
    by (rule facade_unavailable) simp
  have c: "getDifficultyAdjustment
     \<lparr>getLastDifficultyAdjustmentTime = Some (Fin 1000),
      getPreviousDifficultyRetarget = Some (Fin 5),
      getCurrentBlockHeight = Some (Fin 120000),
      getBlocks = [],
      getQuarterEpochBlockTime = None\<rparr> (Fin 1100500) ''mainnet'' = Inr None"
    by (rule facade_unavailable) simp
  show ?thesis using a b c by blast
qed

section \<open>The time offset\<close>

lemma testnet_tweak_offset:
  "jle (snd (testnet_tweak network tas nowSeconds lts)) (Fin 0)"
proof (cases "toLowerCase network = ''testnet''")
  case False
  then show ?thesis by (simp add: testnet_tweak_def)
next
  case True
  let ?cap = "if jlt TESTNET_MAX_BLOCK_SECONDS tas then TESTNET_MAX_BLOCK_SECONDS else tas"
  let ?ssl = "jsub nowSeconds lts"
  have k: "jlt (Fin 1200) (jadd ?ssl ?cap) \<Longrightarrow>
           jle (jmul (jneg (Math_min ?ssl (Fin 1200))) (Fin 1000)) (Fin 0)"
    by (cases ?ssl; cases tas)
       (auto simp add: TESTNET_MAX_BLOCK_SECONDS_def Math_min_def split: if_splits)
  show ?thesis
    using True k by (simp add: testnet_tweak_def Let_def TESTNET_MAX_BLOCK_SECONDS_def)
qed

lemma testnet_tweak_other:
  "toLowerCase network \<noteq> ''testnet'' \<Longrightarrow>
   testnet_tweak network tas nowSeconds lts = (tas, Fin 0)"
  by (simp add: testnet_tweak_def)

lemma timeOffset_legacy_view:
  "timeOffset (legacy_view DATime q nowSeconds h pr network lts) =
     snd (testnet_tweak network
            (timeAvgSecs_init h (Math_max (Fin 0) (jsub nowSeconds DATime))) nowSeconds lts)"
  by (simp add: legacy_view_def Let_def split: prod.splits)

lemma timeOffset_perblock_view:
  "timeOffset (perblock_view c DATime nowSeconds h pr lts) = Fin 0"
  by (simp add: perblock_view_def Let_def)

text \<open>
  C3. In every summary that \<open>calcDifficultyAdjustment\<close> returns, whatever the inputs, the
  time offset is at most 0, and it is exactly 0 when the network, in lower case, is not
  \<open>testnet\<close>.
\<close>

theorem timeOffset_nonpositive:
  assumes "calcDifficultyAdjustment DATime quarterEpochTime nowSeconds blockHeight pr network
             latestBlockTimestamp cache = Inr s"
  shows "jle (timeOffset s) (Fin 0) \<and>
         (toLowerCase network \<noteq> ''testnet'' \<longrightarrow> timeOffset s = Fin 0)"
proof (cases "jlt blockHeight (getActivationHeight network)")
  case True
  have s: "s = legacy_view DATime quarterEpochTime nowSeconds blockHeight pr network
                 latestBlockTimestamp"
    using assms unfolding calc_legacy [OF True] by simp
  show ?thesis
    unfolding s timeOffset_legacy_view
    by (simp add: testnet_tweak_offset testnet_tweak_other)
next
  case False
  obtain c where "s = perblock_view c DATime nowSeconds blockHeight pr latestBlockTimestamp"
    using assms unfolding calc_perblock [OF False] by (auto split: sum.splits)
  then show ?thesis
    by (simp add: timeOffset_perblock_view)
qed

theorem timeOffset_nonpositive_witness:
  "(\<exists>s. calcDifficultyAdjustment (Fin 1000) (Some (Fin 900)) (Fin 1030) (Fin (- 1)) (Fin 5)
          ''testnet'' (Fin (- 1000)) [] = Inr s \<and>
        timeOffset s = Fin (- 1200000) \<and> jle (timeOffset s) (Fin 0)) \<and>
   toLowerCase ''TestNet4'' \<noteq> ''testnet'' \<and>
   (\<exists>s. calcDifficultyAdjustment (Fin 1000) (Some (Fin 900)) (Fin 1030) (Fin (- 1)) (Fin 5)
          ''TestNet4'' (Fin (- 1000)) [] = Inr s \<and> timeOffset s = Fin 0)"
proof -
  let ?a = "legacy_view (Fin 1000) (Some (Fin 900)) (Fin 1030) (Fin (- 1)) (Fin 5)
              ''testnet'' (Fin (- 1000))"
  let ?b = "legacy_view (Fin 1000) (Some (Fin 900)) (Fin 1030) (Fin (- 1)) (Fin 5)
              ''TestNet4'' (Fin (- 1000))"
  have lt: "toLowerCase ''testnet'' = ''testnet''"
    and l4: "toLowerCase ''TestNet4'' = ''testnet4''"
    by (simp_all add: toLowerCase_def char_of_eq_iff)
  have a: "calcDifficultyAdjustment (Fin 1000) (Some (Fin 900)) (Fin 1030) (Fin (- 1)) (Fin 5)
             ''testnet'' (Fin (- 1000)) [] = Inr ?a"
    by (simp add: calcDifficultyAdjustment_def getActivationHeight_def lt)
  have b: "calcDifficultyAdjustment (Fin 1000) (Some (Fin 900)) (Fin 1030) (Fin (- 1)) (Fin 5)
             ''TestNet4'' (Fin (- 1000)) [] = Inr ?b"
    by (simp add: calcDifficultyAdjustment_def getActivationHeight_def l4)
  have v: "timeOffset ?a = Fin (- 1200000)"
    by (simp add: timeOffset_legacy_view testnet_tweak_def lt Let_def timeAvgSecs_init_def
        blocksInEpoch_def truthy_def BLOCK_SECONDS_TARGET_def TESTNET_MAX_BLOCK_SECONDS_def
        jsub_def Math_min_def)
  have n: "toLowerCase ''TestNet4'' \<noteq> ''testnet''"
    by (simp add: l4)
  show ?thesis
    using a b v n timeOffset_nonpositive [OF a] timeOffset_nonpositive [OF b] by simp
qed

section \<open>The clamps\<close>

text \<open>
  The legacy clamp is two comparisons, and both are false on \<open>NaN\<close>: an unclamped change
  that is \<open>NaN\<close> is returned unchanged, and every other one is brought into the range.
\<close>

lemma legacy_clamp_NaN: "legacy_clamp NaN = NaN"
  by (simp add: legacy_clamp_def)









section \<open>The legacy era with an epoch of one block\<close>

lemma blocksInEpoch_int: "blocksInEpoch (Fin (of_int h)) = Fin 0"
  by (simp add: blocksInEpoch_def EPOCH_BLOCK_LENGTH_def ToInteger_def)

lemma legacy_network_not_testnet:
  assumes "0 \<le> h" and "jlt (Fin h) (getActivationHeight network)"
  shows "toLowerCase network \<noteq> ''testnet''"
proof
  assume "toLowerCase network = ''testnet''"
  then have "getActivationHeight network = Fin 0"
    by (simp add: getActivationHeight_def)
  with assms show False by simp
qed

text \<open>
  C10. The epoch length of the legacy branch is 1, so for every non-negative (integer)
  block height \<open>h\<close>: \<open>blocksInEpoch\<close> is 0; the average block interval starts, before the
  testnet cap, as the target of 60 seconds; the index-2015 rule does not apply and
  \<open>actualTimespan\<close> is \<open>nowSeconds - DATime\<close>; and when \<open>h\<close> is below the activation height
  the summary has progress 0, one remaining block and an average interval of 60000 ms, and
  does not depend on the latest block's timestamp (nor on the cache).
\<close>

theorem legacy_epoch_of_one:
  assumes "0 \<le> h"
  shows "blocksInEpoch (Fin (of_int h)) = Fin 0 \<and>
         timeAvgSecs_init (Fin (of_int h)) diffSeconds = Fin 60 \<and>
         actualTimespan (Fin (of_int h)) latestBlockTimestamp nowSeconds DATime
           = jsub nowSeconds DATime \<and>
         (jlt (Fin (of_int h)) (getActivationHeight network) \<longrightarrow>
            (\<exists>s. calcDifficultyAdjustment DATime quarterEpochTime nowSeconds (Fin (of_int h)) pr
                   network latestBlockTimestamp cache = Inr s \<and>
                 progressPercent s = Fin 0 \<and> remainingBlocks s = Fin 1 \<and>
                 timeAvg s = Fin 60000 \<and>
                 calcDifficultyAdjustment DATime quarterEpochTime nowSeconds (Fin (of_int h)) pr
                   network latestBlockTimestamp' cache' = Inr s))"
proof -
  have h0: "jle (Fin 0) (Fin (of_int h))"
    using assms by simp
  have t: "timeAvgSecs_init (Fin (of_int h)) d = Fin 60" for d
    by (simp add: timeAvgSecs_init_def blocksInEpoch_int truthy_def BLOCK_SECONDS_TARGET_def)
  have a: "actualTimespan (Fin (of_int h)) l nowSeconds DATime = jsub nowSeconds DATime" for l
    by (simp add: actualTimespan_def blocksInEpoch_int jeq_def)
  have e: "legacy_estimate DATime quarterEpochTime nowSeconds (Fin (of_int h)) pr l
             = legacy_estimate DATime quarterEpochTime nowSeconds (Fin (of_int h)) pr l'" for l l'
    unfolding legacy_estimate_def a by simp
  have pp: "progressPercent (legacy_view DATime quarterEpochTime nowSeconds (Fin (of_int h)) pr
              network latestBlockTimestamp) = Fin 0"
    using h0 by (simp add: legacy_view_def Let_def blocksInEpoch_int EPOCH_BLOCK_LENGTH_def
        split: prod.splits)
  have rb: "remainingBlocks (legacy_view DATime quarterEpochTime nowSeconds (Fin (of_int h)) pr
              network latestBlockTimestamp) = Fin 1"
    by (simp add: legacy_view_def Let_def blocksInEpoch_int EPOCH_BLOCK_LENGTH_def jsub_def
        split: prod.splits)
  have legacy: "\<exists>s. calcDifficultyAdjustment DATime quarterEpochTime nowSeconds (Fin (of_int h))
                   pr network latestBlockTimestamp cache = Inr s \<and>
                 progressPercent s = Fin 0 \<and> remainingBlocks s = Fin 1 \<and>
                 timeAvg s = Fin 60000 \<and>
                 calcDifficultyAdjustment DATime quarterEpochTime nowSeconds (Fin (of_int h)) pr
                   network latestBlockTimestamp' cache' = Inr s"
    if l: "jlt (Fin (of_int h)) (getActivationHeight network)"
  proof -
    have nt: "toLowerCase network \<noteq> ''testnet''"
      using legacy_network_not_testnet [of "of_int h" network] assms l by simp
    have v: "legacy_view DATime quarterEpochTime nowSeconds (Fin (of_int h)) pr network l
               = legacy_view DATime quarterEpochTime nowSeconds (Fin (of_int h)) pr network l'"
      for l l'
      unfolding legacy_view_def testnet_tweak_other [OF nt] e [of l l'] by simp
    have ta: "timeAvg (legacy_view DATime quarterEpochTime nowSeconds (Fin (of_int h)) pr
                network latestBlockTimestamp) = Fin 60000"
      by (simp add: legacy_view_def Let_def t testnet_tweak_other [OF nt] split: prod.splits)
    show ?thesis
      unfolding calc_legacy [OF l]
      using pp rb ta v [of latestBlockTimestamp' latestBlockTimestamp] by simp
  qed
  show ?thesis
    using t a legacy by (simp add: blocksInEpoch_int)
qed

theorem legacy_epoch_of_one_witness:
  "(0::int) \<le> 114999 \<and> jlt (Fin 114999) (getActivationHeight ''mainnet'') \<and>
   blocksInEpoch (Fin 114999) = Fin 0 \<and>
   timeAvgSecs_init (Fin 114999) (Fin 30) = Fin 60 \<and>
   actualTimespan (Fin 114999) (Fin 1020) (Fin 1030) (Fin 1000) = Fin 30 \<and>
   (\<exists>s. calcDifficultyAdjustment (Fin 1000) None (Fin 1030) (Fin 114999) (Fin 0) ''mainnet''
          (Fin 1020) [] = Inr s \<and>
        progressPercent s = Fin 0 \<and> remainingBlocks s = Fin 1 \<and> timeAvg s = Fin 60000)"
proof -
  have h: "(0::int) \<le> 114999" by simp
  have l: "jlt (Fin 114999) (getActivationHeight ''mainnet'')"
    by (simp add: mainnet_activation)
  show ?thesis
    using l legacy_epoch_of_one [OF h, of "Fin 30" "Fin 1020" "Fin 1030" "Fin 1000" "''mainnet''"
        None "Fin 0" "[]" "Fin 1020" "[]"]
    by (auto simp add: jsub_def)
qed

end
